theory Spec2Isabelle
  imports Main "HOL-Library.Word"
begin

unbundle bit_operations_syntax

section \<open>Trading service: markets and trade orders\<close>

text \<open>
  The embedding follows \<^verbatim>\<open>src/services/tdexService/index.ts\<close>. A market is the object
  built by \<^verbatim>\<open>getMarketsFromProviderV1/V2\<close>; only the fields that the order computer
  reads (\<^verbatim>\<open>provider\<close>, \<^verbatim>\<open>baseAsset\<close>, \<^verbatim>\<open>quoteAsset\<close>) are kept, the balance and fee
  fields are carried along untouched by the code and are left out. Both protocol
  generations use the same shape here; the generation of an order is recorded by the
  tag of \<open>anyOrder\<close> where the two meet.
\<close>

record tdexProvider =
  name :: string
  endpoint :: string

record tdexMarket =
  provider :: tdexProvider
  baseAsset :: string
  quoteAsset :: string

datatype tradeType = BUY | SELL

text \<open>\<^verbatim>\<open>new TraderClientV1(endpoint, proxy)\<close> and \<^verbatim>\<open>new TraderClientV2(endpoint, proxy)\<close>:
  a handle that remembers the provider endpoint and the proxy it was built with.\<close>

datatype traderClient = TraderClient (providerUrl: string) (proxy: string)

record tradeOrder =
  market :: tdexMarket
  type :: tradeType
  traderClient :: traderClient

text \<open>An optional argument that is left out is \<open>None\<close>; the default value of the
  parameter is then used. The default of the second generation is \<^verbatim>\<open>config.torProxy\<close>,
  a constant of the application's configuration, taken as a parameter.\<close>

definition createTraderClientV1 :: "string \<Rightarrow> string option \<Rightarrow> traderClient" where
  "createTraderClientV1 ep prx =
     TraderClient ep (case prx of None \<Rightarrow> ''https://proxy.tdex.network'' | Some p \<Rightarrow> p)"

definition createTraderClientV2 :: "string \<Rightarrow> string \<Rightarrow> string option \<Rightarrow> traderClient" where
  "createTraderClientV2 configTorProxy ep prx =
     TraderClient ep (case prx of None \<Rightarrow> configTorProxy | Some p \<Rightarrow> p)"

text \<open>The object literal pushed by \<^verbatim>\<open>computeOrdersV1\<close> and \<^verbatim>\<open>computeOrdersV2\<close>.\<close>

definition orderV1 :: "tradeType \<Rightarrow> tdexMarket \<Rightarrow> string option \<Rightarrow> tradeOrder" where
  "orderV1 t m torProxy =
     \<lparr>market = m, type = t,
      traderClient = createTraderClientV1 (endpoint (provider m)) torProxy\<rparr>"

definition orderV2 :: "string \<Rightarrow> tradeType \<Rightarrow> tdexMarket \<Rightarrow> string option \<Rightarrow> tradeOrder" where
  "orderV2 configTorProxy t m torProxy =
     \<lparr>market = m, type = t,
      traderClient = createTraderClientV2 configTorProxy (endpoint (provider m)) torProxy\<rparr>"

text \<open>One turn of the \<^verbatim>\<open>for (const market of markets)\<close> loop: two independent
  \<^verbatim>\<open>if\<close> statements, each pushing at the end of \<^verbatim>\<open>trades\<close>.\<close>

definition pushOrdersV1 ::
  "string \<Rightarrow> string \<Rightarrow> string option \<Rightarrow> tradeOrder list \<Rightarrow> tdexMarket \<Rightarrow> tradeOrder list" where
  "pushOrdersV1 sentAsset receivedAsset torProxy trades m =
     (let trades1 =
        (if sentAsset = baseAsset m \<and> receivedAsset = quoteAsset m
         then trades @ [orderV1 SELL m torProxy] else trades)
      in if sentAsset = quoteAsset m \<and> receivedAsset = baseAsset m
         then trades1 @ [orderV1 BUY m torProxy] else trades1)"

definition computeOrdersV1 ::
  "tdexMarket list \<Rightarrow> string \<Rightarrow> string \<Rightarrow> string option \<Rightarrow> tradeOrder list" where
  "computeOrdersV1 markets sentAsset receivedAsset torProxy =
     foldl (pushOrdersV1 sentAsset receivedAsset torProxy) [] markets"

definition pushOrdersV2 ::
  "string \<Rightarrow> string \<Rightarrow> string \<Rightarrow> string option \<Rightarrow> tradeOrder list \<Rightarrow> tdexMarket
    \<Rightarrow> tradeOrder list" where
  "pushOrdersV2 configTorProxy sentAsset receivedAsset torProxy trades m =
     (let trades1 =
        (if sentAsset = baseAsset m \<and> receivedAsset = quoteAsset m
         then trades @ [orderV2 configTorProxy SELL m torProxy] else trades)
      in if sentAsset = quoteAsset m \<and> receivedAsset = baseAsset m
         then trades1 @ [orderV2 configTorProxy BUY m torProxy] else trades1)"

definition computeOrdersV2 ::
  "string \<Rightarrow> tdexMarket list \<Rightarrow> string \<Rightarrow> string \<Rightarrow> string option \<Rightarrow> tradeOrder list" where
  "computeOrdersV2 configTorProxy markets sentAsset receivedAsset torProxy =
     foldl (pushOrdersV2 configTorProxy sentAsset receivedAsset torProxy) [] markets"

section \<open>Best-order selection\<close>

text \<open>
  \<^verbatim>\<open>discoverBestOrder\<close> has a synchronous construction phase, which throws or returns a
  closure, and the closure itself, an \<^verbatim>\<open>async\<close> function. A thrown exception or a
  rejected promise is the left summand. What the code does besides returning is written
  to a list of effects, in the order in which it happens: the calls of
  \<^verbatim>\<open>console.error\<close> and the two discovery runs, which are the only places of this
  function where requests leave for the providers.
\<close>

datatype exn = Error string | NoMarketsAvailableForSelectedPairError

datatype anyOrder = OrderV1 tradeOrder | OrderV2 tradeOrder

datatype effect =
    ConsoleError string
  | ConsoleErrorExn exn
  | DiscoverV1 "tradeOrder list" string int
  | DiscoverV2 "tradeOrder list" string int

record markets =
  v1 :: "tdexMarket list"
  v2 :: "tdexMarket list"

text \<open>
  The discoverer classes and the discovery policies are not part of the service module.
  A run of \<^verbatim>\<open>discoverer.discover({ asset, amount })\<close> over the candidate orders either
  rejects or resolves with a ranked list of orders; what it answers is a parameter.
  Building the two discoverer objects is taken to succeed. The amount \<^verbatim>\<open>sats\<close> is
  an integer.
\<close>

record discoverers =
  discoverV1 :: "tradeOrder list \<Rightarrow> string \<Rightarrow> int \<Rightarrow> exn + tradeOrder list"
  discoverV2 :: "tradeOrder list \<Rightarrow> string \<Rightarrow> int \<Rightarrow> exn + tradeOrder list"

text \<open>\<^verbatim>\<open>xs[0]\<close> is \<^verbatim>\<open>undefined\<close> (here \<open>None\<close>) on an empty array, and \<^verbatim>\<open>a ?? b\<close> is
  \<^verbatim>\<open>b\<close> when \<^verbatim>\<open>a\<close> is \<^verbatim>\<open>undefined\<close>.\<close>

definition arrayFirst :: "'a list \<Rightarrow> 'a option" where
  "arrayFirst xs = (case xs of [] \<Rightarrow> None | x # _ \<Rightarrow> Some x)"

definition nullish :: "'a option \<Rightarrow> 'a option \<Rightarrow> 'a option" where
  "nullish a b = (case a of None \<Rightarrow> b | Some x \<Rightarrow> Some x)"

text \<open>The variables captured by the returned closure.\<close>

record bestOrderClosure =
  allPossibleOrdersV1 :: "tradeOrder list"
  allPossibleOrdersV2 :: "tradeOrder list"

text \<open>The construction phase. \<^verbatim>\<open>!sendAsset\<close> holds for \<^verbatim>\<open>undefined\<close> and for the
  empty string.\<close>

definition discoverBestOrder ::
  "string \<Rightarrow> markets \<Rightarrow> string option \<Rightarrow> string option
    \<Rightarrow> (exn + bestOrderClosure) \<times> effect list" where
  "discoverBestOrder configTorProxy mkts sendAsset receiveAsset =
     (case (sendAsset, receiveAsset) of
        (Some s, Some r) \<Rightarrow>
          if s = [] \<or> r = []
          then (Inl (Error ''unable to compute orders for selected market''), [])
          else
            let ordersV1 = computeOrdersV1 (v1 mkts) s r None;
                ordersV2 = computeOrdersV2 configTorProxy (v2 mkts) s r None
            in if length ordersV1 = 0 \<and> length ordersV2 = 0
               then (Inl NoMarketsAvailableForSelectedPairError,
                     [ConsoleError (''markets not found for pair '' @ s @ ''-'' @ r)])
               else (Inr \<lparr>allPossibleOrdersV1 = ordersV1, allPossibleOrdersV2 = ordersV2\<rparr>,
                     [])
      | _ \<Rightarrow> (Inl (Error ''unable to compute orders for selected market''), []))"

text \<open>The body of the \<^verbatim>\<open>try\<close> block: the first discovery run is awaited before the
  second one starts, so a rejection of the first leaves the second unrun.\<close>

definition discoveryPhase ::
  "discoverers \<Rightarrow> bestOrderClosure \<Rightarrow> int \<Rightarrow> string
    \<Rightarrow> (exn + anyOrder option) \<times> effect list" where
  "discoveryPhase env c sats asset =
     (case discoverV1 env (allPossibleOrdersV1 c) asset sats of
        Inl err \<Rightarrow> (Inl err, [DiscoverV1 (allPossibleOrdersV1 c) asset sats])
      | Inr bestOrdersV1 \<Rightarrow>
          (case discoverV2 env (allPossibleOrdersV2 c) asset sats of
             Inl err \<Rightarrow>
               (Inl err,
                [DiscoverV1 (allPossibleOrdersV1 c) asset sats,
                 DiscoverV2 (allPossibleOrdersV2 c) asset sats])
           | Inr bestOrdersV2 \<Rightarrow>
               (if length bestOrdersV1 = 0 \<and> length bestOrdersV2 = 0
                then Inl (Error ''zero best orders found by discoverer'')
                else Inr (nullish (map_option OrderV2 (arrayFirst bestOrdersV2))
                                  (map_option OrderV1 (arrayFirst bestOrdersV1))),
                [DiscoverV1 (allPossibleOrdersV1 c) asset sats,
                 DiscoverV2 (allPossibleOrdersV2 c) asset sats])))"

text \<open>The closure returned by \<^verbatim>\<open>discoverBestOrder\<close>: the early return for
  \<^verbatim>\<open>sats <= 0\<close>, then the \<^verbatim>\<open>try\<close> block with its \<^verbatim>\<open>catch\<close>.\<close>

definition bestOrderFor ::
  "discoverers \<Rightarrow> bestOrderClosure \<Rightarrow> int \<Rightarrow> string
    \<Rightarrow> (exn + anyOrder option) \<times> effect list" where
  "bestOrderFor env c sats asset =
     (if sats \<le> 0
      then (Inr (nullish (map_option OrderV1 (arrayFirst (allPossibleOrdersV1 c)))
                         (map_option OrderV2 (arrayFirst (allPossibleOrdersV2 c)))), [])
      else
        (case discoveryPhase env c sats asset of
           (Inl err, done) \<Rightarrow>
             (Inr (map_option OrderV1 (arrayFirst (allPossibleOrdersV1 c))),
              done @ [ConsoleErrorExn err])
         | (Inr best, done) \<Rightarrow> (Inr best, done)))"

section \<open>Confidential-input resolution\<close>

text \<open>
  A \<^verbatim>\<open>Buffer\<close> is a list of bytes. \<^verbatim>\<open>buf.toString('hex')\<close> writes two lower-case
  digits per byte.
\<close>

type_synonym byte = "8 word"

definition hexDigit :: "nat \<Rightarrow> char" where
  "hexDigit n = ''0123456789abcdef'' ! n"

definition byteToHex :: "byte \<Rightarrow> string" where
  "byteToHex b = [hexDigit (unat b div 16), hexDigit (unat b mod 16)]"

definition toHex :: "byte list \<Rightarrow> string" where
  "toHex bs = concat (map byteToHex bs)"

text \<open>
  Two functions of the platform are parameters of the resolver, since what they
  answer depends on the runtime and on inputs beyond the usual ones:
  \<^item> \<open>numberToString\<close> is \<^verbatim>\<open>value.toString()\<close>. A number is a double: a natural number
    below \<open>2\<^sup>5\<^sup>3\<close> is printed by its decimal digits, a larger one by the shortest
    digits that read back as the same double.
  \<^item> \<open>bufferFromHex\<close> is \<^verbatim>\<open>Buffer.from(s, 'hex')\<close>. On a string of an even number of
    hexadecimal digits it gives the bytes they write; on another string Node's Buffer
    and the \<^verbatim>\<open>buffer\<close> package of a browser bundle give different bytes.
\<close>

record platform =
  numberToString :: "nat \<Rightarrow> string"
  bufferFromHex :: "string \<Rightarrow> byte list"

text \<open>
  The bytes that a string of pairs of hexadecimal digits writes, digits of either case.
  Reading ends in front of the first pair that is not two hexadecimal digits, and a
  last digit without partner is left out. It is the inverse of \<open>toHex\<close>, and is used
  for the concrete platform further down.
\<close>

definition hexValue :: "char \<Rightarrow> nat option" where
  "hexValue ch =
     (let n = (of_char ch :: nat)
      in if 48 \<le> n \<and> n \<le> 57 then Some (n - 48)
         else if 97 \<le> n \<and> n \<le> 102 then Some (n - 87)
         else if 65 \<le> n \<and> n \<le> 70 then Some (n - 55)
         else None)"

fun hexBytes :: "string \<Rightarrow> byte list" where
  "hexBytes (hi # lo # rest) =
     (case hexValue hi of
        None \<Rightarrow> []
      | Some h \<Rightarrow>
          (case hexValue lo of
             None \<Rightarrow> []
           | Some l \<Rightarrow> of_nat (16 * h + l) # hexBytes rest))"
| "hexBytes _ = []"

text \<open>The decimal digits of a natural number.\<close>

fun decimalDigits :: "nat \<Rightarrow> string" where
  "decimalDigits n =
     (if n < 10 then [''0123456789'' ! n]
      else decimalDigits (n div 10) @ [''0123456789'' ! (n mod 10)])"

text \<open>The transaction template: of an input, the code reads the previous transaction
  id, the previous output index and the script of the witness UTXO, when there is one.\<close>

record witnessUtxo =
  script :: "byte list"

record psetInput =
  previousTxid :: "byte list"
  previousTxIndex :: nat
  witnessUtxo :: "witnessUtxo option"

record pset =
  inputs :: "psetInput list"

text \<open>The wallet store, read through \<^verbatim>\<open>useWalletStore.getState()\<close>: the script index,
  keyed by the script in hex, and the output history, keyed by the outpoint string. Of
  the script details only their presence is used, so their type is left open. The
  field \<^verbatim>\<open>value\<close> of the blinding data, an amount of satoshis, is a natural number
  and is called \<open>valueSats\<close> here.\<close>

record blindingData =
  asset :: string
  assetBlindingFactor :: string
  valueSats :: nat
  valueBlindingFactor :: string

record unblindedOutput =
  blindingData :: "blindingData option"

record 'd walletState =
  scriptDetails :: "string \<rightharpoonup> 'd"
  outputHistory :: "string \<rightharpoonup> unblindedOutput"

record outpoint =
  txid :: string
  vout :: nat

record unblindedInput =
  asset :: string
  assetBlinder :: string
  amountBlinder :: string
  amount :: string
  index :: nat

text \<open>
  Modelled from the spec: \<^verbatim>\<open>outpointToString\<close> of \<^verbatim>\<open>utils/helpers\<close> is not among the
  sources; the spec describes the key of the output history as a canonical
  \<^verbatim>\<open>txid:vout\<close> string. The resolver below takes the key function as a parameter,
  and this one is used where a concrete one is needed.
\<close>

definition outpointToString :: "outpoint \<Rightarrow> string" where
  "outpointToString op = txid op @ '':'' @ decimalDigits (vout op)"

text \<open>\<^verbatim>\<open>.filter((script): script is Buffer => !!script)\<close>: a buffer is an object and so
  always truthy; the filter drops the \<^verbatim>\<open>undefined\<close> entries.\<close>

definition filterDefined :: "'a option list \<Rightarrow> 'a list" where
  "filterDefined xs = concat (map (\<lambda>x. case x of None \<Rightarrow> [] | Some y \<Rightarrow> [y]) xs)"

definition inputsScripts :: "pset \<Rightarrow> string list" where
  "inputsScripts p =
     map toHex (filterDefined (map (\<lambda>input. map_option script (witnessUtxo input)) (inputs p)))"

text \<open>The first loop fills the local record \<^verbatim>\<open>scriptsDetails\<close>.\<close>

definition collectScriptsDetails :: "'d walletState \<Rightarrow> string list \<Rightarrow> (string \<rightharpoonup> 'd)" where
  "collectScriptsDetails w scripts =
     foldl (\<lambda>scriptsDetails s.
              case scriptDetails w s of
                None \<Rightarrow> scriptsDetails
              | Some d \<Rightarrow> scriptsDetails(s \<mapsto> d))
           Map.empty scripts"

text \<open>The second loop collects the indexes of the inputs whose script is in
  \<^verbatim>\<open>scriptsDetails\<close>.\<close>

definition inputIndexes :: "(string \<rightharpoonup> 'd) \<Rightarrow> pset \<Rightarrow> nat list" where
  "inputIndexes scriptsDetails p =
     foldl (\<lambda>acc i.
              case witnessUtxo (inputs p ! i) of
                None \<Rightarrow> acc
              | Some u \<Rightarrow>
                  (case scriptsDetails (toHex (script u)) of
                     None \<Rightarrow> acc
                   | Some d \<Rightarrow> acc @ [i]))
           [] [0 ..< length (inputs p)]"

text \<open>The body of the third loop: the lookup in the output history, the guard that
  skips the input (\<open>None\<close>), and the entry that is pushed otherwise.\<close>

definition historyKey :: "(outpoint \<Rightarrow> string) \<Rightarrow> psetInput \<Rightarrow> string" where
  "historyKey keyOf input =
     keyOf \<lparr>txid = toHex (rev (previousTxid input)), vout = previousTxIndex input\<rparr>"

definition unblindInput ::
  "platform \<Rightarrow> (outpoint \<Rightarrow> string) \<Rightarrow> 'd walletState \<Rightarrow> pset \<Rightarrow> nat
    \<Rightarrow> unblindedInput option" where
  "unblindInput pf keyOf w p inputIndex =
     (let input = inputs p ! inputIndex
      in case outputHistory w (historyKey keyOf input) of
           None \<Rightarrow> None
         | Some unblindOutput \<Rightarrow>
             (case blindingData unblindOutput of
                None \<Rightarrow> None
              | Some bd \<Rightarrow>
                  Some \<lparr>asset = blindingData.asset bd,
                        assetBlinder = toHex (rev (bufferFromHex pf (assetBlindingFactor bd))),
                        amountBlinder = toHex (rev (bufferFromHex pf (valueBlindingFactor bd))),
                        amount = numberToString pf (valueSats bd),
                        index = inputIndex\<rparr>))"

definition psetToUnblindedInputs ::
  "platform \<Rightarrow> (outpoint \<Rightarrow> string) \<Rightarrow> 'd walletState \<Rightarrow> pset
    \<Rightarrow> unblindedInput list" where
  "psetToUnblindedInputs pf keyOf w p =
     (let scriptsDetails = collectScriptsDetails w (inputsScripts p)
      in foldl (\<lambda>unblindedInputs inputIndex.
                  case unblindInput pf keyOf w p inputIndex of
                    None \<Rightarrow> unblindedInputs
                  | Some e \<Rightarrow> unblindedInputs @ [e])
               [] (inputIndexes scriptsDetails p))"

text \<open>An input is wallet-owned when it has a witness UTXO whose script, in hex, is a
  key of the wallet's script index.\<close>

definition walletOwned :: "'d walletState \<Rightarrow> psetInput \<Rightarrow> bool" where
  "walletOwned w input =
     (case witnessUtxo input of
        None \<Rightarrow> False
      | Some u \<Rightarrow> scriptDetails w (toHex (script u)) \<noteq> None)"

text \<open>The output history records blinding data for the outpoint that an input spends.\<close>

definition hasBlindingData :: "(outpoint \<Rightarrow> string) \<Rightarrow> 'd walletState \<Rightarrow> psetInput \<Rightarrow> bool" where
  "hasBlindingData keyOf w input =
     (case outputHistory w (historyKey keyOf input) of
        None \<Rightarrow> False
      | Some unblindOutput \<Rightarrow> blindingData unblindOutput \<noteq> None)"

section \<open>Concrete inputs\<close>

text \<open>A market of L-BTC against USDT at one provider, the orders made from it, and two
  behaviours of the discoverers: every candidate is ranked as it stands, and no
  candidate survives its preview request.\<close>

definition lbtcUsdtMarket :: tdexMarket where
  "lbtcUsdtMarket =
     \<lparr>provider = \<lparr>name = ''p'', endpoint = ''https://p.example''\<rparr>,
      baseAsset = ''lbtc'', quoteAsset = ''usdt''\<rparr>"

definition sellOrderV1 :: tradeOrder where
  "sellOrderV1 =
     \<lparr>market = lbtcUsdtMarket, type = SELL,
      traderClient = TraderClient ''https://p.example'' ''https://proxy.tdex.network''\<rparr>"

definition sellOrderV2 :: tradeOrder where
  "sellOrderV2 =
     \<lparr>market = lbtcUsdtMarket, type = SELL,
      traderClient = TraderClient ''https://p.example'' ''https://proxy.example''\<rparr>"

definition allPreviewsAnswer :: discoverers where
  "allPreviewsAnswer =
     \<lparr>discoverV1 = (\<lambda>orders asset sats. Inr orders),
      discoverV2 = (\<lambda>orders asset sats. Inr orders)\<rparr>"

definition allPreviewsFail :: discoverers where
  "allPreviewsFail =
     \<lparr>discoverV1 = (\<lambda>orders asset sats. Inr []),
      discoverV2 = (\<lambda>orders asset sats. Inr [])\<rparr>"

text \<open>
  A platform for the concrete inputs: numbers are printed by their decimal digits and
  hexadecimal strings are read pair by pair. The numbers of the concrete wallet are
  below \<open>2\<^sup>5\<^sup>3\<close> and its blinding factors are even numbers of hexadecimal digits,
  where every runtime answers so.
\<close>

definition examplePlatform :: platform where
  "examplePlatform = \<lparr>numberToString = decimalDigits, bufferFromHex = hexBytes\<rparr>"

text \<open>
  A template with five inputs and a wallet that knows the scripts \<open>0014aa\<close> and
  \<open>0014cc\<close>. Inputs 0 and 2 spend outputs that the history records with blinding
  data, input 1 has a script that is not the wallet's, input 3 has a wallet script
  but its outpoint is not in the history, and input 4 has no witness UTXO.
\<close>

definition walletPset :: pset where
  "walletPset =
     \<lparr>inputs =
        [\<lparr>previousTxid = [0x01, 0x02], previousTxIndex = 0,
          witnessUtxo = Some \<lparr>script = [0x00, 0x14, 0xaa]\<rparr>\<rparr>,
         \<lparr>previousTxid = [0x03, 0x04], previousTxIndex = 1,
          witnessUtxo = Some \<lparr>script = [0x00, 0x14, 0xbb]\<rparr>\<rparr>,
         \<lparr>previousTxid = [0x05, 0x06], previousTxIndex = 12,
          witnessUtxo = Some \<lparr>script = [0x00, 0x14, 0xcc]\<rparr>\<rparr>,
         \<lparr>previousTxid = [0x07, 0x08], previousTxIndex = 0,
          witnessUtxo = Some \<lparr>script = [0x00, 0x14, 0xaa]\<rparr>\<rparr>,
         \<lparr>previousTxid = [0x09, 0x0a], previousTxIndex = 0,
          witnessUtxo = None\<rparr>]\<rparr>"

definition walletStore :: "unit walletState" where
  "walletStore =
     \<lparr>scriptDetails = [''0014aa'' \<mapsto> (), ''0014cc'' \<mapsto> ()],
      outputHistory =
        [''0201:0'' \<mapsto>
           \<lparr>blindingData = Some \<lparr>blindingData.asset = ''lbtc'', assetBlindingFactor = ''a1b2'',
                                  valueSats = 5000, valueBlindingFactor = ''c3d4''\<rparr>\<rparr>,
         ''0605:12'' \<mapsto>
           \<lparr>blindingData = Some \<lparr>blindingData.asset = ''usdt'', assetBlindingFactor = ''0102'',
                                  valueSats = 70, valueBlindingFactor = ''0304''\<rparr>\<rparr>]\<rparr>"

text \<open>A template whose only input is the wallet's, and a wallet whose history is
  empty.\<close>

definition ownedInputPset :: pset where
  "ownedInputPset =
     \<lparr>inputs =
        [\<lparr>previousTxid = [0x01, 0x02], previousTxIndex = 0,
          witnessUtxo = Some \<lparr>script = [0x00, 0x14, 0xaa]\<rparr>\<rparr>]\<rparr>"

definition emptyHistoryStore :: "unit walletState" where
  "emptyHistoryStore =
     \<lparr>scriptDetails = [''0014aa'' \<mapsto> ()], outputHistory = Map.empty\<rparr>"

section \<open>Properties of the order computer\<close>

lemma two_pushes_acc:
  "(let t1 = (if P then acc @ [a] else acc) in if Q then t1 @ [b] else t1) =
     acc @ (let t1 = (if P then [] @ [a] else []) in if Q then t1 @ [b] else t1)"
  by (cases P; cases Q; simp)

lemma two_pushes_empty:
  "(let t1 = (if P then [] @ [a] else []) in if Q then t1 @ [b] else t1) =
     (if P then [a] else []) @ (if Q then [b] else [])"
  by (cases P; cases Q; simp)

lemma two_tests_length:
  "\<not> (P \<and> Q) \<Longrightarrow> length ((if P then [a] else []) @ (if Q then [b] else [])) \<le> 1"
  by (cases P; cases Q; simp)

lemma pushOrdersV1_acc:
  "pushOrdersV1 s r tp acc m = acc @ pushOrdersV1 s r tp [] m"
  unfolding pushOrdersV1_def by (rule two_pushes_acc)

lemma pushOrdersV2_acc:
  "pushOrdersV2 c s r tp acc m = acc @ pushOrdersV2 c s r tp [] m"
  unfolding pushOrdersV2_def by (rule two_pushes_acc)

lemma foldl_pushOrdersV1:
  "foldl (pushOrdersV1 s r tp) acc ms =
     acc @ concat (map (pushOrdersV1 s r tp []) ms)"
proof (induction ms arbitrary: acc)
  case Nil
  show ?case by simp
next
  case (Cons m ms)
  have "foldl (pushOrdersV1 s r tp) acc (m # ms) =
          foldl (pushOrdersV1 s r tp) (pushOrdersV1 s r tp acc m) ms"
    by simp
  also have "\<dots> = pushOrdersV1 s r tp acc m @ concat (map (pushOrdersV1 s r tp []) ms)"
    by (rule Cons.IH)
  also have "\<dots> = (acc @ pushOrdersV1 s r tp [] m) @ concat (map (pushOrdersV1 s r tp []) ms)"
    by (subst pushOrdersV1_acc) (rule refl)
  finally show ?case by simp
qed

lemma foldl_pushOrdersV2:
  "foldl (pushOrdersV2 c s r tp) acc ms =
     acc @ concat (map (pushOrdersV2 c s r tp []) ms)"
proof (induction ms arbitrary: acc)
  case Nil
  show ?case by simp
next
  case (Cons m ms)
  have "foldl (pushOrdersV2 c s r tp) acc (m # ms) =
          foldl (pushOrdersV2 c s r tp) (pushOrdersV2 c s r tp acc m) ms"
    by simp
  also have "\<dots> = pushOrdersV2 c s r tp acc m @ concat (map (pushOrdersV2 c s r tp []) ms)"
    by (rule Cons.IH)
  also have "\<dots> =
      (acc @ pushOrdersV2 c s r tp [] m) @ concat (map (pushOrdersV2 c s r tp []) ms)"
    by (subst pushOrdersV2_acc) (rule refl)
  finally show ?case by simp
qed

lemma computeOrdersV1_one: "computeOrdersV1 [m] s r tp = pushOrdersV1 s r tp [] m"
  by (simp add: computeOrdersV1_def)

lemma computeOrdersV2_one: "computeOrdersV2 c [m] s r tp = pushOrdersV2 c s r tp [] m"
  by (simp add: computeOrdersV2_def)

lemma computeOrdersV1_concat:
  "computeOrdersV1 ms s r tp = concat (map (\<lambda>m. computeOrdersV1 [m] s r tp) ms)"
  unfolding computeOrdersV1_one
  by (simp add: computeOrdersV1_def foldl_pushOrdersV1)

lemma computeOrdersV2_concat:
  "computeOrdersV2 c ms s r tp = concat (map (\<lambda>m. computeOrdersV2 c [m] s r tp) ms)"
  unfolding computeOrdersV2_one
  by (simp add: computeOrdersV2_def foldl_pushOrdersV2)

lemma computeOrdersV1_single:
  "computeOrdersV1 [m] s r tp =
     (if s = baseAsset m \<and> r = quoteAsset m then [orderV1 SELL m tp] else []) @
     (if s = quoteAsset m \<and> r = baseAsset m then [orderV1 BUY m tp] else [])"
  unfolding computeOrdersV1_one pushOrdersV1_def by (rule two_pushes_empty)

lemma computeOrdersV2_single:
  "computeOrdersV2 c [m] s r tp =
     (if s = baseAsset m \<and> r = quoteAsset m then [orderV2 c SELL m tp] else []) @
     (if s = quoteAsset m \<and> r = baseAsset m then [orderV2 c BUY m tp] else [])"
  unfolding computeOrdersV2_one pushOrdersV2_def by (rule two_pushes_empty)

lemma computeOrdersV1_append:
  "computeOrdersV1 (xs @ ys) s r tp = computeOrdersV1 xs s r tp @ computeOrdersV1 ys s r tp"
  by (simp add: computeOrdersV1_def foldl_pushOrdersV1)

lemma computeOrdersV2_append:
  "computeOrdersV2 c (xs @ ys) s r tp =
     computeOrdersV2 c xs s r tp @ computeOrdersV2 c ys s r tp"
  by (simp add: computeOrdersV2_def foldl_pushOrdersV2)

text \<open>
  Claim C2. For every list of markets and every asset pair, \<open>computeOrdersV1\<close> and
  \<open>computeOrdersV2\<close> return, market by market and in the order of the input list, a SELL
  order of the market exactly when the sent asset is the market's base asset and the
  received asset its quote asset, a BUY order of the market exactly when the sent asset
  is the quote asset and the received asset the base asset, and nothing for a market
  that matches neither test. Each order is written out: its market, its direction and
  the client bound to the endpoint of the market's provider.
\<close>

theorem computeOrders_emits_by_direction:
  "computeOrdersV1 markets sentAsset receivedAsset torProxy =
     concat (map (\<lambda>m.
       (if sentAsset = baseAsset m \<and> receivedAsset = quoteAsset m
        then [\<lparr>market = m, type = SELL,
               traderClient =
                 TraderClient (endpoint (provider m))
                   (case torProxy of None \<Rightarrow> ''https://proxy.tdex.network''
                    | Some p \<Rightarrow> p)\<rparr>]
        else []) @
       (if sentAsset = quoteAsset m \<and> receivedAsset = baseAsset m
        then [\<lparr>market = m, type = BUY,
               traderClient =
                 TraderClient (endpoint (provider m))
                   (case torProxy of None \<Rightarrow> ''https://proxy.tdex.network''
                    | Some p \<Rightarrow> p)\<rparr>]
        else [])) markets)
   \<and> computeOrdersV2 cfgProxy markets sentAsset receivedAsset torProxy =
     concat (map (\<lambda>m.
       (if sentAsset = baseAsset m \<and> receivedAsset = quoteAsset m
        then [\<lparr>market = m, type = SELL,
               traderClient =
                 TraderClient (endpoint (provider m))
                   (case torProxy of None \<Rightarrow> cfgProxy | Some p \<Rightarrow> p)\<rparr>]
        else []) @
       (if sentAsset = quoteAsset m \<and> receivedAsset = baseAsset m
        then [\<lparr>market = m, type = BUY,
               traderClient =
                 TraderClient (endpoint (provider m))
                   (case torProxy of None \<Rightarrow> cfgProxy | Some p \<Rightarrow> p)\<rparr>]
        else [])) markets)"
proof
  have "computeOrdersV1 markets sentAsset receivedAsset torProxy =
          concat (map (\<lambda>m. computeOrdersV1 [m] sentAsset receivedAsset torProxy) markets)"
    by (rule computeOrdersV1_concat)
  then show "computeOrdersV1 markets sentAsset receivedAsset torProxy =
     concat (map (\<lambda>m.
       (if sentAsset = baseAsset m \<and> receivedAsset = quoteAsset m
        then [\<lparr>market = m, type = SELL,
               traderClient =
                 TraderClient (endpoint (provider m))
                   (case torProxy of None \<Rightarrow> ''https://proxy.tdex.network''
                    | Some p \<Rightarrow> p)\<rparr>]
        else []) @
       (if sentAsset = quoteAsset m \<and> receivedAsset = baseAsset m
        then [\<lparr>market = m, type = BUY,
               traderClient =
                 TraderClient (endpoint (provider m))
                   (case torProxy of None \<Rightarrow> ''https://proxy.tdex.network''
                    | Some p \<Rightarrow> p)\<rparr>]
        else [])) markets)"
    by (simp only: computeOrdersV1_single orderV1_def createTraderClientV1_def)
  have "computeOrdersV2 cfgProxy markets sentAsset receivedAsset torProxy =
          concat (map (\<lambda>m. computeOrdersV2 cfgProxy [m] sentAsset receivedAsset torProxy)
            markets)"
    by (rule computeOrdersV2_concat)
  then show "computeOrdersV2 cfgProxy markets sentAsset receivedAsset torProxy =
     concat (map (\<lambda>m.
       (if sentAsset = baseAsset m \<and> receivedAsset = quoteAsset m
        then [\<lparr>market = m, type = SELL,
               traderClient =
                 TraderClient (endpoint (provider m))
                   (case torProxy of None \<Rightarrow> cfgProxy | Some p \<Rightarrow> p)\<rparr>]
        else []) @
       (if sentAsset = quoteAsset m \<and> receivedAsset = baseAsset m
        then [\<lparr>market = m, type = BUY,
               traderClient =
                 TraderClient (endpoint (provider m))
                   (case torProxy of None \<Rightarrow> cfgProxy | Some p \<Rightarrow> p)\<rparr>]
        else [])) markets)"
    by (simp only: computeOrdersV2_single orderV2_def createTraderClientV2_def)
qed

text \<open>
  Claim C3, as stated: every single market contributes at most one order. The two tests
  of the loop are independent statements, not alternatives, so a market whose base
  and quote asset are the same asset, asked for with that asset on both sides, passes
  both and contributes a SELL and a BUY order.
\<close>

theorem computeOrders_both_directions_counterexample:
  "computeOrdersV1
     [\<lparr>provider = \<lparr>name = ''p'', endpoint = ''https://p.example''\<rparr>,
       baseAsset = ''lbtc'', quoteAsset = ''lbtc''\<rparr>] ''lbtc'' ''lbtc'' None =
   [\<lparr>market = \<lparr>provider = \<lparr>name = ''p'', endpoint = ''https://p.example''\<rparr>,
               baseAsset = ''lbtc'', quoteAsset = ''lbtc''\<rparr>,
     type = SELL,
     traderClient = TraderClient ''https://p.example'' ''https://proxy.tdex.network''\<rparr>,
    \<lparr>market = \<lparr>provider = \<lparr>name = ''p'', endpoint = ''https://p.example''\<rparr>,
               baseAsset = ''lbtc'', quoteAsset = ''lbtc''\<rparr>,
     type = BUY,
     traderClient = TraderClient ''https://p.example'' ''https://proxy.tdex.network''\<rparr>]"
  by (simp add: computeOrdersV1_single orderV1_def createTraderClientV1_def)

text \<open>
  Claim C3, amended: unless the sent asset, the received asset, the market's base asset
  and its quote asset are all the same asset, the market contributes at most one order:
  the result for a list of markets is the result for the markets before it, then the
  at most one order of the market itself, then the result for the markets after it.
\<close>

theorem computeOrders_at_most_one_per_market:
  assumes "sentAsset \<noteq> receivedAsset \<or> baseAsset m \<noteq> quoteAsset m \<or> sentAsset \<noteq> baseAsset m"
  shows "computeOrdersV1 (pre @ m # post) sentAsset receivedAsset torProxy =
           computeOrdersV1 pre sentAsset receivedAsset torProxy @
           computeOrdersV1 [m] sentAsset receivedAsset torProxy @
           computeOrdersV1 post sentAsset receivedAsset torProxy
       \<and> length (computeOrdersV1 [m] sentAsset receivedAsset torProxy) \<le> 1
       \<and> computeOrdersV2 c (pre @ m # post) sentAsset receivedAsset torProxy =
           computeOrdersV2 c pre sentAsset receivedAsset torProxy @
           computeOrdersV2 c [m] sentAsset receivedAsset torProxy @
           computeOrdersV2 c post sentAsset receivedAsset torProxy
       \<and> length (computeOrdersV2 c [m] sentAsset receivedAsset torProxy) \<le> 1"
proof -
  have split1: "computeOrdersV1 (pre @ m # post) sentAsset receivedAsset torProxy =
           computeOrdersV1 pre sentAsset receivedAsset torProxy @
           computeOrdersV1 [m] sentAsset receivedAsset torProxy @
           computeOrdersV1 post sentAsset receivedAsset torProxy"
    using computeOrdersV1_append [of pre "[m] @ post"] computeOrdersV1_append [of "[m]" post]
    by simp
  have split2: "computeOrdersV2 c (pre @ m # post) sentAsset receivedAsset torProxy =
           computeOrdersV2 c pre sentAsset receivedAsset torProxy @
           computeOrdersV2 c [m] sentAsset receivedAsset torProxy @
           computeOrdersV2 c post sentAsset receivedAsset torProxy"
    using computeOrdersV2_append [of c pre "[m] @ post"]
      computeOrdersV2_append [of c "[m]" post]
    by simp
  have excl: "\<not> ((sentAsset = baseAsset m \<and> receivedAsset = quoteAsset m) \<and>
                (sentAsset = quoteAsset m \<and> receivedAsset = baseAsset m))"
    using assms by metis
  have l1: "length (computeOrdersV1 [m] sentAsset receivedAsset torProxy) \<le> 1"
    unfolding computeOrdersV1_single by (rule two_tests_length [OF excl])
  have l2: "length (computeOrdersV2 c [m] sentAsset receivedAsset torProxy) \<le> 1"
    unfolding computeOrdersV2_single by (rule two_tests_length [OF excl])
  show ?thesis using split1 split2 l1 l2 by blast
qed

theorem computeOrders_at_most_one_per_market_witness:
  "''lbtc'' \<noteq> ''usdt''
   \<and> computeOrdersV1 [lbtcUsdtMarket] ''lbtc'' ''usdt'' None = [sellOrderV1]
   \<and> length (computeOrdersV1 [lbtcUsdtMarket] ''lbtc'' ''usdt'' None) \<le> 1
   \<and> length (computeOrdersV2 ''https://proxy.example'' [lbtcUsdtMarket]
         ''lbtc'' ''usdt'' None) \<le> 1"
proof -
  have h: "''lbtc'' \<noteq> ''usdt''" by simp
  have v: "computeOrdersV1 [lbtcUsdtMarket] ''lbtc'' ''usdt'' None = [sellOrderV1]"
    by (simp add: computeOrdersV1_single lbtcUsdtMarket_def sellOrderV1_def orderV1_def
        createTraderClientV1_def)
  note t = computeOrders_at_most_one_per_market
    [where m = lbtcUsdtMarket and pre = "[]" and post = "[]" and torProxy = None
       and c = "''https://proxy.example''", OF disjI1 [OF h]]
  from t have l1: "length (computeOrdersV1 [lbtcUsdtMarket] ''lbtc'' ''usdt'' None) \<le> 1"
    by blast
  from t have l2: "length (computeOrdersV2 ''https://proxy.example'' [lbtcUsdtMarket]
         ''lbtc'' ''usdt'' None) \<le> 1"
    by blast
  show ?thesis using h v l1 l2 by blast
qed

section \<open>Properties of the best-order selection\<close>

lemma discoverBestOrder_candidates:
  assumes "fst (discoverBestOrder cfg mkts sendAsset receiveAsset) = Inr c"
  shows "allPossibleOrdersV1 c \<noteq> [] \<or> allPossibleOrdersV2 c \<noteq> []"
  using assms
  by (auto simp: discoverBestOrder_def Let_def split: option.splits if_splits)

lemma bestOrderFor_never_rejects: "\<exists>v. fst (bestOrderFor env c sats queryAsset) = Inr v"
  by (auto simp: bestOrderFor_def split: prod.splits sum.splits)

lemma bestOrderFor_catch:
  assumes "0 < sats" and "discoveryPhase env c sats queryAsset = (Inl err, done)"
  shows "bestOrderFor env c sats queryAsset =
     (Inr (map_option OrderV1 (arrayFirst (allPossibleOrdersV1 c))),
      done @ [ConsoleErrorExn err])"
  using assms by (simp add: bestOrderFor_def)

text \<open>
  Claim C4. In the closure, for a positive amount and two discovery runs that both
  resolve, with at least one of the two ranked lists non-empty, the selected order is
  the first of the V2 list whenever that list is non-empty, and the first of the V1
  list when the V2 list is empty.
\<close>

theorem bestOrderFor_prefers_V2:
  assumes "0 < sats"
    and "discoverV1 env (allPossibleOrdersV1 c) queryAsset sats = Inr bestOrdersV1"
    and "discoverV2 env (allPossibleOrdersV2 c) queryAsset sats = Inr bestOrdersV2"
    and "bestOrdersV1 \<noteq> [] \<or> bestOrdersV2 \<noteq> []"
  shows "(bestOrdersV2 \<noteq> [] \<longrightarrow>
            fst (bestOrderFor env c sats queryAsset) = Inr (Some (OrderV2 (hd bestOrdersV2))))
       \<and> (bestOrdersV2 = [] \<longrightarrow>
            fst (bestOrderFor env c sats queryAsset) = Inr (Some (OrderV1 (hd bestOrdersV1))))"
  using assms
  by (cases bestOrdersV1; cases bestOrdersV2)
     (simp_all add: bestOrderFor_def discoveryPhase_def arrayFirst_def nullish_def)

theorem bestOrderFor_prefers_V2_witness:
  "(0::int) < 1000
   \<and> discoverV1 allPreviewsAnswer [sellOrderV1] ''lbtc'' 1000 = Inr [sellOrderV1]
   \<and> discoverV2 allPreviewsAnswer [sellOrderV2] ''lbtc'' 1000 = Inr [sellOrderV2]
   \<and> fst (bestOrderFor allPreviewsAnswer
            \<lparr>allPossibleOrdersV1 = [sellOrderV1], allPossibleOrdersV2 = [sellOrderV2]\<rparr>
            1000 ''lbtc'') = Inr (Some (OrderV2 sellOrderV2))"
  using bestOrderFor_prefers_V2
    [of 1000 allPreviewsAnswer
        "\<lparr>allPossibleOrdersV1 = [sellOrderV1], allPossibleOrdersV2 = [sellOrderV2]\<rparr>"
        "''lbtc''" "[sellOrderV1]" "[sellOrderV2]"]
  by (simp add: allPreviewsAnswer_def)

text \<open>
  Claim C5. A failure of the discovery phase is caught and the closure resolves with
  \<^verbatim>\<open>allPossibleOrdersV1[0]\<close> (the two lemmas above). The claim also promises an order
  to the caller whenever a candidate exists in either generation. With no V1 candidate,
  one V2 candidate and no surviving preview, the closure exists, the discovery phase
  throws "zero best orders found by discoverer", and the closure resolves with
  \<^verbatim>\<open>undefined\<close>: the catch block does not fall back on the V2 candidates, as the early
  return for \<^verbatim>\<open>sats <= 0\<close> does.
\<close>

theorem bestOrderFor_catch_without_V1_candidate:
  "discoverBestOrder ''https://proxy.example'' \<lparr>v1 = [], v2 = [lbtcUsdtMarket]\<rparr>
       (Some ''lbtc'') (Some ''usdt'') =
     (Inr \<lparr>allPossibleOrdersV1 = [], allPossibleOrdersV2 = [sellOrderV2]\<rparr>, [])
   \<and> bestOrderFor allPreviewsFail
       \<lparr>allPossibleOrdersV1 = [], allPossibleOrdersV2 = [sellOrderV2]\<rparr> 1000 ''lbtc'' =
     (Inr None,
      [DiscoverV1 [] ''lbtc'' 1000, DiscoverV2 [sellOrderV2] ''lbtc'' 1000,
       ConsoleErrorExn (Error ''zero best orders found by discoverer'')])"
  by (simp add: discoverBestOrder_def computeOrdersV1_def computeOrdersV2_single
      lbtcUsdtMarket_def sellOrderV2_def orderV2_def createTraderClientV2_def
      bestOrderFor_def discoveryPhase_def allPreviewsFail_def arrayFirst_def)

text \<open>
  Claim C6, as stated: with no candidate order in either generation the construction
  phase throws the no-markets error. The guard on the two assets comes first: for an
  empty send asset and no markets at all, both candidate sets are empty and the error
  thrown is the one of the guard.
\<close>

theorem guard_precedes_no_markets_counterexample:
  "computeOrdersV1 (v1 \<lparr>v1 = [], v2 = []\<rparr>) '''' ''usdt'' None = []
   \<and> computeOrdersV2 ''https://proxy.example'' (v2 \<lparr>v1 = [], v2 = []\<rparr>) '''' ''usdt'' None = []
   \<and> discoverBestOrder ''https://proxy.example'' \<lparr>v1 = [], v2 = []\<rparr> (Some '''') (Some ''usdt'') =
       (Inl (Error ''unable to compute orders for selected market''), [])"
  by (simp add: discoverBestOrder_def computeOrdersV1_def computeOrdersV2_def)

text \<open>
  Claim C6, amended: when the send asset and the receive asset are both given and
  non-empty, and the candidate sets of both generations are empty, the construction
  phase throws the no-markets error; it has logged the missing pair, has run no
  discovery, and returns no closure.
\<close>

theorem discoverBestOrder_no_markets:
  assumes "s \<noteq> []" and "r \<noteq> []"
    and "computeOrdersV1 (v1 mkts) s r None = []"
    and "computeOrdersV2 cfg (v2 mkts) s r None = []"
  shows "discoverBestOrder cfg mkts (Some s) (Some r) =
           (Inl NoMarketsAvailableForSelectedPairError,
            [ConsoleError (''markets not found for pair '' @ s @ ''-'' @ r)])"
  using assms by (simp add: discoverBestOrder_def)

theorem discoverBestOrder_no_markets_witness:
  "''usdt'' \<noteq> []
   \<and> computeOrdersV1 (v1 \<lparr>v1 = [lbtcUsdtMarket], v2 = []\<rparr>) ''usdt'' ''usdt'' None = []
   \<and> computeOrdersV2 ''https://proxy.example'' (v2 \<lparr>v1 = [lbtcUsdtMarket], v2 = []\<rparr>)
       ''usdt'' ''usdt'' None = []
   \<and> discoverBestOrder ''https://proxy.example'' \<lparr>v1 = [lbtcUsdtMarket], v2 = []\<rparr>
       (Some ''usdt'') (Some ''usdt'') =
       (Inl NoMarketsAvailableForSelectedPairError,
        [ConsoleError ''markets not found for pair usdt-usdt''])"
proof -
  have a1: "computeOrdersV1 (v1 \<lparr>v1 = [lbtcUsdtMarket], v2 = []\<rparr>) ''usdt'' ''usdt'' None = []"
    by (simp add: computeOrdersV1_single lbtcUsdtMarket_def)
  have a2: "computeOrdersV2 ''https://proxy.example'' (v2 \<lparr>v1 = [lbtcUsdtMarket], v2 = []\<rparr>)
       ''usdt'' ''usdt'' None = []"
    by (simp add: computeOrdersV2_def)
  have n: "''usdt'' \<noteq> []" by simp
  show ?thesis
    using discoverBestOrder_no_markets [OF n n a1 a2] a1 a2 by simp
qed

text \<open>
  Claim C7. For every amount that is zero or negative, the closure returned by
  \<^verbatim>\<open>discoverBestOrder\<close> resolves with a candidate order and runs no discovery: with
  the first V1 candidate if there is one, otherwise with the first V2 candidate, which
  then exists.
\<close>

theorem bestOrderFor_no_discovery_for_zero:
  assumes "fst (discoverBestOrder cfg mkts sendAsset receiveAsset) = Inr c" and "sats \<le> 0"
  shows "(allPossibleOrdersV1 c \<noteq> [] \<longrightarrow>
            bestOrderFor env c sats queryAsset =
              (Inr (Some (OrderV1 (hd (allPossibleOrdersV1 c)))), []))
       \<and> (allPossibleOrdersV1 c = [] \<longrightarrow> allPossibleOrdersV2 c \<noteq> [] \<and>
            bestOrderFor env c sats queryAsset =
              (Inr (Some (OrderV2 (hd (allPossibleOrdersV2 c)))), []))"
  using discoverBestOrder_candidates [OF assms(1)] assms(2)
  by (cases "allPossibleOrdersV1 c"; cases "allPossibleOrdersV2 c")
     (simp_all add: bestOrderFor_def arrayFirst_def nullish_def)

theorem bestOrderFor_no_discovery_for_zero_witness:
  "fst (discoverBestOrder ''https://proxy.example'' \<lparr>v1 = [], v2 = [lbtcUsdtMarket]\<rparr>
          (Some ''lbtc'') (Some ''usdt'')) =
     Inr \<lparr>allPossibleOrdersV1 = [], allPossibleOrdersV2 = [sellOrderV2]\<rparr>
   \<and> (0::int) \<le> 0
   \<and> bestOrderFor allPreviewsFail
       \<lparr>allPossibleOrdersV1 = [], allPossibleOrdersV2 = [sellOrderV2]\<rparr> 0 ''lbtc'' =
     (Inr (Some (OrderV2 sellOrderV2)), [])"
proof -
  have c: "fst (discoverBestOrder ''https://proxy.example'' \<lparr>v1 = [], v2 = [lbtcUsdtMarket]\<rparr>
          (Some ''lbtc'') (Some ''usdt'')) =
     Inr \<lparr>allPossibleOrdersV1 = [], allPossibleOrdersV2 = [sellOrderV2]\<rparr>"
    by (simp add: discoverBestOrder_def computeOrdersV1_def computeOrdersV2_single
        lbtcUsdtMarket_def sellOrderV2_def orderV2_def createTraderClientV2_def)
  have z: "(0::int) \<le> 0" by simp
  show ?thesis
    using bestOrderFor_no_discovery_for_zero [OF c z, of allPreviewsFail "''lbtc''"] c
    by simp
qed

text \<open>
  Claim C10. When the send asset or the receive asset is \<^verbatim>\<open>undefined\<close> or the empty
  string, \<^verbatim>\<open>discoverBestOrder\<close> throws "unable to compute orders for selected market",
  whatever the markets are, and has done nothing else: no candidate is computed, nothing
  is logged and no discovery is run.
\<close>

theorem discoverBestOrder_guard:
  assumes "sendAsset = None \<or> sendAsset = Some [] \<or> receiveAsset = None \<or> receiveAsset = Some []"
  shows "discoverBestOrder cfg mkts sendAsset receiveAsset =
           (Inl (Error ''unable to compute orders for selected market''), [])"
  using assms by (auto simp: discoverBestOrder_def split: option.splits)

theorem discoverBestOrder_guard_witness:
  "((None :: string option) = None \<or> (None :: string option) = Some [] \<or>
      Some ''usdt'' = None \<or> Some ''usdt'' = Some [])
   \<and> discoverBestOrder ''https://proxy.example'' \<lparr>v1 = [lbtcUsdtMarket], v2 = []\<rparr>
        None (Some ''usdt'') =
      (Inl (Error ''unable to compute orders for selected market''), [])"
  using discoverBestOrder_guard
    [of None "Some ''usdt''" "''https://proxy.example''" "\<lparr>v1 = [lbtcUsdtMarket], v2 = []\<rparr>"]
  by simp

section \<open>Properties of the confidential-input resolution\<close>

lemma foldl_push_some:
  "foldl (\<lambda>acc x. case f x of None \<Rightarrow> acc | Some y \<Rightarrow> acc @ [y]) acc xs =
     acc @ List.map_filter f xs"
  by (induction xs arbitrary: acc) (auto simp: List.map_filter_simps split: option.splits)

lemma foldl_push_if:
  "foldl (\<lambda>acc x. if P x then acc @ [x] else acc) acc xs = acc @ filter P xs"
  by (induction xs arbitrary: acc) auto

lemma foldl_collect_lookup:
  "foldl (\<lambda>acc s. case sd s of None \<Rightarrow> acc | Some d \<Rightarrow> acc(s \<mapsto> d)) acc scripts k =
     (if k \<in> set scripts \<and> sd k \<noteq> None then sd k else acc k)"
  by (induction scripts arbitrary: acc) (auto split: option.splits)

lemma collectScriptsDetails_lookup:
  "collectScriptsDetails w scripts k = (if k \<in> set scripts then scriptDetails w k else None)"
  unfolding collectScriptsDetails_def by (simp add: foldl_collect_lookup)

lemma set_filterDefined: "set (filterDefined xs) = {y. Some y \<in> set xs}"
  by (induction xs) (auto simp: filterDefined_def split: option.splits)

lemma script_in_inputsScripts:
  assumes "i < length (inputs p)" and "witnessUtxo (inputs p ! i) = Some u"
  shows "toHex (script u) \<in> set (inputsScripts p)"
proof -
  have "Some (script u) \<in> set (map (\<lambda>input. map_option script (witnessUtxo input)) (inputs p))"
    using assms by (force simp: in_set_conv_nth)
  then have "script u \<in> set (filterDefined
      (map (\<lambda>input. map_option script (witnessUtxo input)) (inputs p)))"
    unfolding set_filterDefined by simp
  then show ?thesis
    unfolding inputsScripts_def by (metis imageI set_map)
qed

lemma inputIndexes_filter:
  "inputIndexes (collectScriptsDetails w (inputsScripts p)) p =
     filter (\<lambda>i. walletOwned w (inputs p ! i)) [0 ..< length (inputs p)]"
proof -
  let ?sd = "collectScriptsDetails w (inputsScripts p)"
  have body: "(\<lambda>acc i. case witnessUtxo (inputs p ! i) of None \<Rightarrow> acc
                | Some u \<Rightarrow> (case ?sd (toHex (script u)) of None \<Rightarrow> acc | Some d \<Rightarrow> acc @ [i])) =
              (\<lambda>acc i. if (case witnessUtxo (inputs p ! i) of None \<Rightarrow> False
                | Some u \<Rightarrow> ?sd (toHex (script u)) \<noteq> None) then acc @ [i] else acc)"
    by (auto simp: fun_eq_iff split: option.splits)
  have "inputIndexes ?sd p =
          filter (\<lambda>i. case witnessUtxo (inputs p ! i) of None \<Rightarrow> False
                | Some u \<Rightarrow> ?sd (toHex (script u)) \<noteq> None) [0 ..< length (inputs p)]"
    unfolding inputIndexes_def body by (simp add: foldl_push_if)
  also have "\<dots> = filter (\<lambda>i. walletOwned w (inputs p ! i)) [0 ..< length (inputs p)]"
  proof (rule filter_cong [OF refl])
    fix i assume "i \<in> set [0 ..< length (inputs p)]"
    then have i: "i < length (inputs p)" by simp
    show "(case witnessUtxo (inputs p ! i) of None \<Rightarrow> False
            | Some u \<Rightarrow> ?sd (toHex (script u)) \<noteq> None) = walletOwned w (inputs p ! i)"
      using script_in_inputsScripts [OF i]
      by (auto simp: walletOwned_def collectScriptsDetails_lookup split: option.splits)
  qed
  finally show ?thesis .
qed

lemma psetToUnblindedInputs_eq:
  "psetToUnblindedInputs pf keyOf w p =
     List.map_filter (unblindInput pf keyOf w p)
       (filter (\<lambda>i. walletOwned w (inputs p ! i)) [0 ..< length (inputs p)])"
  unfolding psetToUnblindedInputs_def Let_def
  by (simp add: foldl_push_some inputIndexes_filter)

lemma set_map_filter: "set (List.map_filter f xs) = {y. \<exists>x \<in> set xs. f x = Some y}"
  by (induction xs) (auto simp: List.map_filter_simps split: option.splits)

lemma psetToUnblindedInputs_mem:
  "e \<in> set (psetToUnblindedInputs pf keyOf w p) \<longleftrightarrow>
     (\<exists>i < length (inputs p). walletOwned w (inputs p ! i) \<and> unblindInput pf keyOf w p i = Some e)"
  unfolding psetToUnblindedInputs_eq set_map_filter by auto

lemma hexValue_hexDigit:
  assumes "d < 16"
  shows "hexValue (hexDigit d) = Some d"
proof -
  consider "d < 4" | "4 \<le> d \<and> d < 8" | "8 \<le> d \<and> d < 12" | "12 \<le> d \<and> d < 16"
    using assms by linarith
  then show ?thesis
  proof cases
    case 1
    then have "d = 0 \<or> d = 1 \<or> d = 2 \<or> d = 3" by arith
    then show ?thesis by (elim disjE) (simp_all add: hexValue_def hexDigit_def)
  next
    case 2
    then have "d = 4 \<or> d = 5 \<or> d = 6 \<or> d = 7" by arith
    then show ?thesis by (elim disjE) (simp_all add: hexValue_def hexDigit_def)
  next
    case 3
    then have "d = 8 \<or> d = 9 \<or> d = 10 \<or> d = 11" by arith
    then show ?thesis by (elim disjE) (simp_all add: hexValue_def hexDigit_def)
  next
    case 4
    then have "d = 12 \<or> d = 13 \<or> d = 14 \<or> d = 15" by arith
    then show ?thesis by (elim disjE) (simp_all add: hexValue_def hexDigit_def)
  qed
qed

lemma byte_of_nibbles: "(of_nat (16 * (unat b div 16) + unat b mod 16) :: byte) = b"
  by simp

lemma byte_hi_nibble: "unat (b :: byte) div 16 < 16"
proof -
  have "unat b < 256" using unsigned_less [of b] by simp
  then show ?thesis by simp
qed

text \<open>Writing bytes in hex and reading them back gives the bytes.\<close>

lemma hexBytes_toHex: "hexBytes (toHex bs) = bs"
proof (induction bs)
  case Nil
  show ?case by (simp add: toHex_def)
next
  case (Cons b bs)
  have "hexBytes (toHex (b # bs)) =
          hexBytes (hexDigit (unat b div 16) # hexDigit (unat b mod 16) # toHex bs)"
    by (simp add: toHex_def byteToHex_def)
  also have "\<dots> = of_nat (16 * (unat b div 16) + unat b mod 16) # hexBytes (toHex bs)"
    by (simp add: hexValue_hexDigit byte_hi_nibble)
  finally show ?case using Cons.IH by (simp only: byte_of_nibbles)
qed

lemma unblindInput_index: "unblindInput pf keyOf w p i = Some e \<Longrightarrow> index e = i"
  by (cases "outputHistory w (historyKey keyOf (inputs p ! i))";
      cases "blindingData (the (outputHistory w (historyKey keyOf (inputs p ! i))))")
     (auto simp: unblindInput_def)

lemma unblindInput_defined:
  "unblindInput pf keyOf w p i \<noteq> None \<longleftrightarrow> hasBlindingData keyOf w (inputs p ! i)"
  by (cases "outputHistory w (historyKey keyOf (inputs p ! i))";
      cases "blindingData (the (outputHistory w (historyKey keyOf (inputs p ! i))))")
     (auto simp: unblindInput_def hasBlindingData_def)

lemma map_index_map_filter:
  assumes "\<And>i e. f i = Some e \<Longrightarrow> index e = i"
  shows "map index (List.map_filter f xs) = filter (\<lambda>i. f i \<noteq> None) xs"
  using assms
  by (induction xs) (auto simp: List.map_filter_simps split: option.splits)

lemma psetToUnblindedInputs_indexes:
  "map index (psetToUnblindedInputs pf keyOf w p) =
     filter (\<lambda>i. walletOwned w (inputs p ! i) \<and> hasBlindingData keyOf w (inputs p ! i))
       [0 ..< length (inputs p)]"
proof -
  have "map index (psetToUnblindedInputs pf keyOf w p) =
          filter (\<lambda>i. unblindInput pf keyOf w p i \<noteq> None)
            (filter (\<lambda>i. walletOwned w (inputs p ! i)) [0 ..< length (inputs p)])"
    unfolding psetToUnblindedInputs_eq
    by (rule map_index_map_filter) (rule unblindInput_index)
  also have "\<dots> = filter (\<lambda>i. walletOwned w (inputs p ! i) \<and>
                              hasBlindingData keyOf w (inputs p ! i))
                     [0 ..< length (inputs p)]"
    unfolding unblindInput_defined filter_filter
    by (rule filter_cong [OF refl]) blast
  finally show ?thesis .
qed

lemma unblindInput_SomeD:
  assumes "unblindInput pf keyOf w p i = Some e"
  obtains unblindOutput bd where
    "outputHistory w (historyKey keyOf (inputs p ! i)) = Some unblindOutput"
    "blindingData unblindOutput = Some bd"
    "e = \<lparr>asset = blindingData.asset bd,
          assetBlinder = toHex (rev (bufferFromHex pf (assetBlindingFactor bd))),
          amountBlinder = toHex (rev (bufferFromHex pf (valueBlindingFactor bd))),
          amount = numberToString pf (valueSats bd),
          index = i\<rparr>"
proof (cases "outputHistory w (historyKey keyOf (inputs p ! i))")
  case None
  then show ?thesis using assms by (simp add: unblindInput_def)
next
  case (Some h)
  show ?thesis
  proof (cases "blindingData h")
    case None
    then show ?thesis using assms Some by (simp add: unblindInput_def)
  next
    case (Some bd)
    from assms \<open>outputHistory w (historyKey keyOf (inputs p ! i)) = Some h\<close> Some
    have "e = \<lparr>asset = blindingData.asset bd,
          assetBlinder = toHex (rev (bufferFromHex pf (assetBlindingFactor bd))),
          amountBlinder = toHex (rev (bufferFromHex pf (valueBlindingFactor bd))),
          amount = numberToString pf (valueSats bd),
          index = i\<rparr>"
      by (simp add: unblindInput_def)
    with \<open>outputHistory w (historyKey keyOf (inputs p ! i)) = Some h\<close> Some that
    show ?thesis by blast
  qed
qed

text \<open>Evaluation of the resolver on the concrete template and wallet.\<close>

lemmas evalDefs = psetToUnblindedInputs_def collectScriptsDetails_def inputsScripts_def
  filterDefined_def inputIndexes_def unblindInput_def historyKey_def outpointToString_def
  toHex_def byteToHex_def hexDigit_def hexValue_def walletOwned_def hasBlindingData_def
  examplePlatform_def

lemma upt5: "[0..<5] = [0, 1, 2, 3, 4]"
  by (simp add: upt_rec)

lemma walletPset_resolved:
  "psetToUnblindedInputs examplePlatform outpointToString walletStore walletPset =
     [\<lparr>asset = ''lbtc'', assetBlinder = ''b2a1'', amountBlinder = ''d4c3'',
       amount = ''5000'', index = 0\<rparr>,
      \<lparr>asset = ''usdt'', assetBlinder = ''0201'', amountBlinder = ''0403'',
       amount = ''70'', index = 2\<rparr>]"
  by (simp add: evalDefs walletStore_def walletPset_def upt5)

text \<open>
  Claim C1. Every entry of the result of \<^verbatim>\<open>psetToUnblindedInputs\<close> carries the index
  of an input of the template; the output history, asked with the key made of that
  input's previous transaction id, byte-reversed and in hex, and of its previous
  output index, holds an output with blinding data; the entry's asset is the recorded
  asset, its amount is the recorded value as the platform prints it, and its two
  blinders are the bytes that the platform reads from the recorded blinding factors,
  in reverse order and written in hex, so that the bytes of each blinder are the
  reversed bytes of the recorded factor. This holds on every platform.
\<close>

theorem psetToUnblindedInputs_entry:
  assumes "e \<in> set (psetToUnblindedInputs pf keyOf w p)"
  shows "index e < length (inputs p)
       \<and> (\<exists>unblindOutput bd.
            outputHistory w
              (keyOf \<lparr>txid = toHex (rev (previousTxid (inputs p ! index e))),
                      vout = previousTxIndex (inputs p ! index e)\<rparr>) = Some unblindOutput
          \<and> blindingData unblindOutput = Some bd
          \<and> unblindedInput.asset e = blindingData.asset bd
          \<and> amount e = numberToString pf (valueSats bd)
          \<and> assetBlinder e = toHex (rev (bufferFromHex pf (assetBlindingFactor bd)))
          \<and> amountBlinder e = toHex (rev (bufferFromHex pf (valueBlindingFactor bd)))
          \<and> hexBytes (assetBlinder e) = rev (bufferFromHex pf (assetBlindingFactor bd))
          \<and> hexBytes (amountBlinder e) = rev (bufferFromHex pf (valueBlindingFactor bd)))"
proof -
  from assms obtain i where i: "i < length (inputs p)"
    and e: "unblindInput pf keyOf w p i = Some e"
    unfolding psetToUnblindedInputs_mem by blast
  from e obtain h bd where
    h: "outputHistory w (historyKey keyOf (inputs p ! i)) = Some h"
    and bd: "blindingData h = Some bd"
    and eq: "e = \<lparr>asset = blindingData.asset bd,
          assetBlinder = toHex (rev (bufferFromHex pf (assetBlindingFactor bd))),
          amountBlinder = toHex (rev (bufferFromHex pf (valueBlindingFactor bd))),
          amount = numberToString pf (valueSats bd),
          index = i\<rparr>"
    by (rule unblindInput_SomeD)
  have idx: "index e = i" by (simp add: eq)
  have key: "outputHistory w
              (keyOf \<lparr>txid = toHex (rev (previousTxid (inputs p ! index e))),
                      vout = previousTxIndex (inputs p ! index e)\<rparr>) = Some h"
    using h unfolding idx historyKey_def .
  have f1: "unblindedInput.asset e = blindingData.asset bd" by (simp add: eq)
  have f2: "amount e = numberToString pf (valueSats bd)" by (simp add: eq)
  have f3: "assetBlinder e = toHex (rev (bufferFromHex pf (assetBlindingFactor bd)))" by (simp add: eq)
  have f4: "amountBlinder e = toHex (rev (bufferFromHex pf (valueBlindingFactor bd)))" by (simp add: eq)
  have f5: "hexBytes (assetBlinder e) = rev (bufferFromHex pf (assetBlindingFactor bd))"
    unfolding f3 by (rule hexBytes_toHex)
  have f6: "hexBytes (amountBlinder e) = rev (bufferFromHex pf (valueBlindingFactor bd))"
    unfolding f4 by (rule hexBytes_toHex)
  show ?thesis using i idx key bd f1 f2 f3 f4 f5 f6 by blast
qed

theorem psetToUnblindedInputs_entry_witness:
  "\<lparr>asset = ''usdt'', assetBlinder = ''0201'', amountBlinder = ''0403'',
     amount = ''70'', index = 2\<rparr>
     \<in> set (psetToUnblindedInputs examplePlatform outpointToString walletStore walletPset)
   \<and> index \<lparr>asset = ''usdt'', assetBlinder = ''0201'', amountBlinder = ''0403'',
             amount = ''70'', index = 2\<rparr> < length (inputs walletPset)"
proof -
  have h: "\<lparr>asset = ''usdt'', assetBlinder = ''0201'', amountBlinder = ''0403'',
     amount = ''70'', index = 2\<rparr>
     \<in> set (psetToUnblindedInputs examplePlatform outpointToString walletStore walletPset)"
    by (simp add: walletPset_resolved)
  from psetToUnblindedInputs_entry [OF h]
  have "index \<lparr>asset = ''usdt'', assetBlinder = ''0201'', amountBlinder = ''0403'',
             amount = ''70'', index = 2\<rparr> < length (inputs walletPset)"
    by (rule conjunct1)
  with h show ?thesis by (rule conjI)
qed

lemma psetToUnblindedInputs_index_set:
  "index ` set (psetToUnblindedInputs pf keyOf w p) =
      {j. j < length (inputs p) \<and> walletOwned w (inputs p ! j) \<and>
          hasBlindingData keyOf w (inputs p ! j)}"
proof -
  have "index ` set (psetToUnblindedInputs pf keyOf w p) =
          set (map index (psetToUnblindedInputs pf keyOf w p))"
    by simp
  also have "\<dots> = set (filter (\<lambda>i. walletOwned w (inputs p ! i) \<and>
                        hasBlindingData keyOf w (inputs p ! i)) [0 ..< length (inputs p)])"
    by (simp only: psetToUnblindedInputs_indexes)
  also have "\<dots> = {j. j < length (inputs p) \<and> walletOwned w (inputs p ! j) \<and>
          hasBlindingData keyOf w (inputs p ! j)}"
    by auto
  finally show ?thesis .
qed

text \<open>
  Claim C8. An input of the template that is wallet-owned, but whose outpoint is not in
  the output history or whose history entry has no blinding data, has no entry in the
  result; the resolution raises nothing (the function has no failing branch), and every
  other wallet-owned input with recorded blinding data still has its entry.
\<close>

theorem psetToUnblindedInputs_skips_gap:
  assumes "i < length (inputs p)" and "walletOwned w (inputs p ! i)"
    and "outputHistory w (historyKey keyOf (inputs p ! i)) = None
         \<or> (\<exists>unblindOutput. outputHistory w (historyKey keyOf (inputs p ! i)) = Some unblindOutput
              \<and> blindingData unblindOutput = None)"
  shows "i \<notin> index ` set (psetToUnblindedInputs pf keyOf w p)
       \<and> (\<forall>j < length (inputs p).
            walletOwned w (inputs p ! j) \<and> hasBlindingData keyOf w (inputs p ! j) \<longrightarrow>
            (\<exists>e \<in> set (psetToUnblindedInputs pf keyOf w p). index e = j))"
proof (intro conjI allI impI)
  have no: "\<not> hasBlindingData keyOf w (inputs p ! i)"
    using assms(3) by (auto simp: hasBlindingData_def)
  then show "i \<notin> index ` set (psetToUnblindedInputs pf keyOf w p)"
    unfolding psetToUnblindedInputs_index_set by simp
next
  fix j
  assume "j < length (inputs p)"
    and "walletOwned w (inputs p ! j) \<and> hasBlindingData keyOf w (inputs p ! j)"
  then have "j \<in> index ` set (psetToUnblindedInputs pf keyOf w p)"
    unfolding psetToUnblindedInputs_index_set by simp
  then obtain e where "e \<in> set (psetToUnblindedInputs pf keyOf w p)" and "j = index e"
    by (rule imageE)
  then show "\<exists>e \<in> set (psetToUnblindedInputs pf keyOf w p). index e = j"
    by (intro bexI [of _ e]) simp_all
qed

theorem psetToUnblindedInputs_skips_gap_witness:
  "3 < length (inputs walletPset)
   \<and> walletOwned walletStore (inputs walletPset ! 3)
   \<and> outputHistory walletStore (historyKey outpointToString (inputs walletPset ! 3)) = None
   \<and> 3 \<notin> index ` set (psetToUnblindedInputs examplePlatform outpointToString walletStore walletPset)
   \<and> (\<exists>e \<in> set (psetToUnblindedInputs examplePlatform outpointToString walletStore walletPset). index e = 2)"
proof -
  have h1: "3 < length (inputs walletPset)"
    by (simp add: walletPset_def)
  have h2: "walletOwned walletStore (inputs walletPset ! 3)"
    by (simp add: evalDefs walletStore_def walletPset_def)
  have h3: "outputHistory walletStore (historyKey outpointToString (inputs walletPset ! 3)) = None"
    by (simp add: evalDefs walletStore_def walletPset_def)
  have h4: "2 < length (inputs walletPset)"
    by (simp add: walletPset_def)
  have h5: "walletOwned walletStore (inputs walletPset ! 2) \<and>
            hasBlindingData outpointToString walletStore (inputs walletPset ! 2)"
    by (simp add: evalDefs walletStore_def walletPset_def)
  note t = psetToUnblindedInputs_skips_gap [OF h1 h2 disjI1 [OF h3]]
  from t have a: "3 \<notin> index ` set (psetToUnblindedInputs examplePlatform outpointToString walletStore walletPset)"
    by (rule conjunct1)
  from t h4 h5
  have b: "\<exists>e \<in> set (psetToUnblindedInputs examplePlatform outpointToString walletStore walletPset). index e = 2"
    by blast
  show ?thesis using h1 h2 h3 a b by blast
qed

text \<open>
  Claim C9, as stated: the indexes of the result correspond one to one with the
  wallet-owned inputs. The loop skips a wallet-owned input whose outpoint has no
  blinding data in the history: a template whose only input is the wallet's, resolved
  against an empty history, gives no entry at all.
\<close>

theorem psetToUnblindedInputs_owned_without_entry_counterexample:
  "0 < length (inputs ownedInputPset)
   \<and> walletOwned emptyHistoryStore (inputs ownedInputPset ! 0)
   \<and> psetToUnblindedInputs examplePlatform outpointToString emptyHistoryStore ownedInputPset = []"
  by (simp add: evalDefs emptyHistoryStore_def ownedInputPset_def)

text \<open>
  Claim C9, amended: the indexes of the result are pairwise distinct and are, in
  increasing order, exactly the indexes of the inputs that are wallet-owned and whose
  outpoint has blinding data in the output history; an input that is not wallet-owned
  never appears.
\<close>

theorem psetToUnblindedInputs_owned_with_data:
  "map index (psetToUnblindedInputs pf keyOf w p) =
     filter (\<lambda>i. walletOwned w (inputs p ! i) \<and> hasBlindingData keyOf w (inputs p ! i))
       [0 ..< length (inputs p)]
   \<and> distinct (map index (psetToUnblindedInputs pf keyOf w p))
   \<and> (\<forall>e \<in> set (psetToUnblindedInputs pf keyOf w p).
        index e < length (inputs p) \<and> walletOwned w (inputs p ! index e))"
proof -
  have eq: "map index (psetToUnblindedInputs pf keyOf w p) =
     filter (\<lambda>i. walletOwned w (inputs p ! i) \<and> hasBlindingData keyOf w (inputs p ! i))
       [0 ..< length (inputs p)]"
    by (rule psetToUnblindedInputs_indexes)
  have d: "distinct (map index (psetToUnblindedInputs pf keyOf w p))"
    unfolding eq by simp
  have o: "\<forall>e \<in> set (psetToUnblindedInputs pf keyOf w p).
        index e < length (inputs p) \<and> walletOwned w (inputs p ! index e)"
  proof
    fix e assume "e \<in> set (psetToUnblindedInputs pf keyOf w p)"
    then have "index e \<in> set (map index (psetToUnblindedInputs pf keyOf w p))" by simp
    then show "index e < length (inputs p) \<and> walletOwned w (inputs p ! index e)"
      unfolding eq by simp
  qed
  show ?thesis using eq d o by blast
qed

theorem psetToUnblindedInputs_owned_with_data_witness:
  "map index (psetToUnblindedInputs examplePlatform outpointToString walletStore walletPset) = [0, 2]
   \<and> distinct (map index (psetToUnblindedInputs examplePlatform outpointToString walletStore walletPset))"
proof -
  note t = psetToUnblindedInputs_owned_with_data [of examplePlatform outpointToString walletStore walletPset]
  have f: "filter (\<lambda>i. walletOwned walletStore (inputs walletPset ! i) \<and>
                  hasBlindingData outpointToString walletStore (inputs walletPset ! i))
             [0 ..< length (inputs walletPset)] = [0, 2]"
    by (simp add: evalDefs walletStore_def walletPset_def upt5)
  from t have a: "map index (psetToUnblindedInputs examplePlatform outpointToString walletStore walletPset) =
      filter (\<lambda>i. walletOwned walletStore (inputs walletPset ! i) \<and>
                  hasBlindingData outpointToString walletStore (inputs walletPset ! i))
             [0 ..< length (inputs walletPset)]"
    by (rule conjunct1)
  from t have d: "distinct (map index (psetToUnblindedInputs examplePlatform outpointToString walletStore walletPset))"
    by blast
  show ?thesis using a d unfolding f by (rule conjI)
qed

end
